theory Spec2Isabelle
  imports Complex_Main
begin

section \<open>Data model of \<open>src/utils/quantum_math.py\<close>\<close>

text \<open>
  Python floats are modelled as \<^typ>\<open>real\<close> and Python complex numbers as
  \<^typ>\<open>complex\<close>: \<open>abs(z)\<close> is \<^term>\<open>cmod z\<close>, \<open>z.conjugate()\<close> is
  \<^term>\<open>cnj z\<close>, \<open>math.sqrt\<close> is \<^term>\<open>sqrt\<close>, \<open>math.exp\<close> and \<open>cmath.exp\<close>
  are \<^term>\<open>exp\<close>, \<open>math.log2\<close> is \<^term>\<open>log 2\<close>. Rounding is not modelled,
  nor are overflow and underflow (see \<open>ordinary_magnitude\<close> below).
  Every value the source draws from its environment (the clock, the hash of a string,
  the pseudo-random generator) is an explicit argument of the function that draws it.
\<close>

text \<open>
  Python floats are IEEE doubles. The real-number model agrees with them up to rounding
  as long as every intermediate result stays in the range of normal doubles. Above about
  \<open>1.8e308\<close> the source leaves that range upwards: \<open>abs(z)**2\<close> and \<open>math.exp\<close> raise
  \<open>OverflowError\<close> (the former for \<open>|z|\<close> above about \<open>1.3e154\<close>, the latter for an argument
  above about \<open>709.78\<close>), other operations give \<open>inf\<close>. Below about \<open>2.2e-308\<close> nonzero
  results lose precision and become \<open>0.0\<close>, so that the test \<open>norm > 0\<close> of \<open>normalize\<close>
  can fail on a nonzero pair. None of this is in the model. An argument of ordinary
  magnitude is \<open>0\<close> or lies between \<open>1e-100\<close> and \<open>1e100\<close> in absolute value; for such
  arguments the squares, sums, square roots and quotients taken by \<open>normalize\<close> and
  \<open>initialize\<close> stay between \<open>1e-201\<close> and \<open>2e200\<close>.
\<close>

definition ordinary_magnitude :: "real \<Rightarrow> bool" where
  "ordinary_magnitude x \<longleftrightarrow> x = 0 \<or> (1 / 10 ^ 100 \<le> \<bar>x\<bar> \<and> \<bar>x\<bar> \<le> 10 ^ 100)"

datatype QuantumState = SUPERPOSITION | LEFT_COLLAPSED | RIGHT_COLLAPSED | ENTANGLED

record QuantumDecision =
  direction :: string
  probability :: real
  amplitude_left :: complex
  amplitude_right :: complex
  entropy :: real
  coherence :: real
  timestamp :: real

record QuantumWavefunction =
  alpha :: complex
  beta :: complex

subsection \<open>QuantumWavefunction\<close>

definition normalize_wf :: "QuantumWavefunction \<Rightarrow> QuantumWavefunction" where
  \<comment> \<open>\<open>QuantumWavefunction.normalize\<close>, for amplitudes of ordinary magnitude\<close>
  "normalize_wf psi =
     (let norm = sqrt ((cmod (alpha psi))\<^sup>2 + (cmod (beta psi))\<^sup>2)
      in if norm > 0
         then psi\<lparr>alpha := alpha psi / of_real norm, beta := beta psi / of_real norm\<rparr>
         else psi)"

definition QuantumWavefunction_init :: "complex \<Rightarrow> complex \<Rightarrow> QuantumWavefunction" where
  \<comment> \<open>\<open>QuantumWavefunction.__init__\<close>; the defaults are \<open>0.707+0j\<close> twice\<close>
  "QuantumWavefunction_init a b = normalize_wf \<lparr>alpha = a, beta = b\<rparr>"

definition get_probabilities :: "QuantumWavefunction \<Rightarrow> real \<times> real" where
  "get_probabilities psi =
     (let left_prob = (cmod (alpha psi))\<^sup>2;
          right_prob = (cmod (beta psi))\<^sup>2
      in (left_prob, right_prob))"

text \<open>
  The three entropy sources of \<open>_quantum_random\<close>: the first clock reading
  \<open>time.time()\<close>, the value of \<open>hash(str(time.time()))\<close> and the value of
  \<open>random.getrandbits(32)\<close>.
\<close>

type_synonym entropy_sources = "real \<times> int \<times> nat"

definition py_int :: "real \<Rightarrow> int" where
  \<comment> \<open>Python's \<open>int(x)\<close> on a float truncates towards zero\<close>
  "py_int x = (if x \<ge> 0 then \<lfloor>x\<rfloor> else \<lceil>x\<rceil>)"

definition quantum_random :: "entropy_sources \<Rightarrow> real" where
  \<comment> \<open>\<open>QuantumWavefunction._quantum_random\<close>\<close>
  "quantum_random src =
     (case src of (t, h, g) \<Rightarrow>
        let sources = [py_int (t * 1000000), h mod 1000000, int g];
            combined = fold (\<lambda>source c. xor c (source mod 1000000)) sources 0
        in real_of_int (combined mod 1000000) / 1000000)"

definition collapse :: "QuantumWavefunction \<Rightarrow> entropy_sources \<Rightarrow> string \<times> QuantumWavefunction" where
  \<comment> \<open>\<open>QuantumWavefunction.collapse\<close>: the direction returned and the wavefunction left behind\<close>
  "collapse psi src =
     (let (left_prob, right_prob) = get_probabilities psi;
          random_val = quantum_random src
      in if random_val < left_prob
         then (''LEFT'', psi\<lparr>alpha := 1, beta := 0\<rparr>)
         else (''RIGHT'', psi\<lparr>alpha := 0, beta := 1\<rparr>))"

definition apply_decoherence :: "QuantumWavefunction \<Rightarrow> real \<Rightarrow> real \<Rightarrow> real \<Rightarrow> QuantumWavefunction" where
  \<comment> \<open>\<open>QuantumWavefunction.apply_decoherence\<close>; \<open>u\<close> is the value of \<open>random.random()\<close>.
      Over the reals \<open>exp\<close> is never \<open>0\<close> and never fails; \<open>math.exp(-rate * dt)\<close> raises
      \<open>OverflowError\<close> for \<open>rate * dt\<close> below about \<open>-709.78\<close>, and for \<open>rate * dt\<close> above about
      \<open>372\<close> the scaled amplitudes of a unit pair underflow in \<open>normalize\<close>.\<close>
  "apply_decoherence psi rate dt u =
     (let decay_factor = exp (- rate * dt);
          phase_noise = 2 * pi * u * rate * dt;
          a = alpha psi * (exp (\<i> * of_real phase_noise) * of_real decay_factor);
          b = beta psi * (exp (\<i> * of_real phase_noise) * of_real decay_factor)
      in normalize_wf (psi\<lparr>alpha := a, beta := b\<rparr>))"

subsection \<open>QuantumWalkSimulator\<close>

record QuantumWalkSimulator =
  wavefunction :: QuantumWavefunction
  current_state :: QuantumState
  decision_history :: "QuantumDecision list"
  entropy_history :: "real list"
  coherence_history :: "real list"
  decoherence_rate :: real
  coherence_time :: real
  noise_level :: real
  last_decision_time :: real
  total_decisions :: nat

definition QuantumWalkSimulator_init :: QuantumWalkSimulator where
  \<comment> \<open>\<open>QuantumWalkSimulator.__init__\<close>\<close>
  "QuantumWalkSimulator_init =
     \<lparr>wavefunction = QuantumWavefunction_init (707 / 1000) (707 / 1000),
      current_state = SUPERPOSITION,
      decision_history = [],
      entropy_history = [],
      coherence_history = [],
      decoherence_rate = 1 / 10,
      coherence_time = 1,
      noise_level = 1 / 10,
      last_decision_time = 0,
      total_decisions = 0\<rparr>"

definition initialize :: "QuantumWalkSimulator \<Rightarrow> real \<Rightarrow> real \<Rightarrow> real \<Rightarrow> real \<Rightarrow> QuantumWalkSimulator" where
  \<comment> \<open>\<open>QuantumWalkSimulator.initialize\<close>: the engine after a call that returns. The source
      has no \<open>raise\<close> of its own; for an amplitude above about \<open>1.3e154\<close> in absolute value
      \<open>normalize\<close> raises \<open>OverflowError\<close>, after the two amplitudes are stored and before
      anything else is set.\<close>
  "initialize sim left_amplitude right_amplitude coherence_time' noise_level' =
     sim\<lparr>wavefunction :=
           normalize_wf ((wavefunction sim)\<lparr>alpha := Complex left_amplitude 0,
                                            beta := Complex right_amplitude 0\<rparr>),
         coherence_time := coherence_time',
         noise_level := noise_level',
         decoherence_rate := (if coherence_time' > 0 then 1 / coherence_time' else 0),
         current_state := SUPERPOSITION,
         decision_history := [],
         entropy_history := [],
         coherence_history := []\<rparr>"

definition calculate_entropy :: "QuantumWalkSimulator \<Rightarrow> real" where
  "calculate_entropy sim =
     (let (left_prob, right_prob) = get_probabilities (wavefunction sim);
          e0 = 0;
          e1 = (if left_prob > 0 then e0 - left_prob * log 2 left_prob else e0);
          e2 = (if right_prob > 0 then e1 - right_prob * log 2 right_prob else e1)
      in e2)"

definition calculate_coherence :: "QuantumWalkSimulator \<Rightarrow> real" where
  "calculate_coherence sim =
     (let a = alpha (wavefunction sim);
          b = beta (wavefunction sim)
      in cmod (cnj a * b))"

definition reset_to_superposition :: "QuantumWalkSimulator \<Rightarrow> QuantumWalkSimulator" where
  "reset_to_superposition sim =
     sim\<lparr>wavefunction := (wavefunction sim)\<lparr>alpha := Complex (707 / 1000) 0,
                                            beta := Complex (707 / 1000) 0\<rparr>,
         current_state := SUPERPOSITION\<rparr>"

definition update_histories :: "QuantumWalkSimulator \<Rightarrow> QuantumWalkSimulator" where
  "update_histories sim =
     (let entropy' = calculate_entropy sim;
          coherence' = calculate_coherence sim;
          eh = entropy_history sim @ [entropy'];
          ch = coherence_history sim @ [coherence'];
          max_history = 1000;
          eh' = (if length eh > max_history then tl eh else eh);
          ch' = (if length ch > max_history then tl ch else ch)
      in sim\<lparr>entropy_history := eh', coherence_history := ch'\<rparr>)"

text \<open>
  The draws of one evolution step: \<open>phase_u\<close> is the value of \<open>random.random()\<close> in
  \<open>apply_decoherence\<close>; the four \<open>z\<close> fields are the standard-normal variates behind
  the four calls of \<open>random.gauss\<close>, which returns \<open>mu + z * sigma\<close>.
\<close>

record step_draws =
  phase_u :: real
  z_alpha_re :: real
  z_alpha_im :: real
  z_beta_re :: real
  z_beta_im :: real

definition gauss :: "real \<Rightarrow> real \<Rightarrow> real \<Rightarrow> real" where
  "gauss mu sigma z = mu + z * sigma"

definition evolve_quantum_state :: "QuantumWalkSimulator \<Rightarrow> real \<Rightarrow> step_draws \<Rightarrow> QuantumWalkSimulator" where
  "evolve_quantum_state sim dt d =
     (let wf1 = apply_decoherence (wavefunction sim) (decoherence_rate sim) dt (phase_u d)
      in if noise_level sim > 0
         then (let noise_alpha = Complex (gauss 0 (noise_level sim * dt) (z_alpha_re d))
                                         (gauss 0 (noise_level sim * dt) (z_alpha_im d));
                   noise_beta = Complex (gauss 0 (noise_level sim * dt) (z_beta_re d))
                                        (gauss 0 (noise_level sim * dt) (z_beta_im d));
                   wf2 = wf1\<lparr>alpha := alpha wf1 + noise_alpha, beta := beta wf1 + noise_beta\<rparr>
               in sim\<lparr>wavefunction := normalize_wf wf2\<rparr>)
         else sim\<lparr>wavefunction := wf1\<rparr>)"

definition step :: "QuantumWalkSimulator \<Rightarrow> real \<Rightarrow> step_draws \<Rightarrow> QuantumWalkSimulator" where
  \<comment> \<open>\<open>QuantumWalkSimulator.step\<close>; \<open>current_time\<close> is the value of \<open>time.time()\<close>\<close>
  "step sim current_time d =
     (let sim1 = (if last_decision_time sim > 0
                  then (let dt = current_time - last_decision_time sim
                        in update_histories (evolve_quantum_state sim dt d))
                  else sim)
      in sim1\<lparr>last_decision_time := current_time\<rparr>)"

definition make_quantum_decision ::
    "QuantumWalkSimulator \<Rightarrow> entropy_sources \<Rightarrow> real \<Rightarrow> QuantumDecision \<times> QuantumWalkSimulator" where
  \<comment> \<open>\<open>QuantumWalkSimulator.make_quantum_decision\<close>; \<open>now\<close> is the value of \<open>time.time()\<close>\<close>
  "make_quantum_decision sim src now =
     (let (left_prob, right_prob) = get_probabilities (wavefunction sim);
          entropy' = calculate_entropy sim;
          coherence' = calculate_coherence sim;
          (direction', psi') = collapse (wavefunction sim) src;
          decision = \<lparr>direction = direction',
                      probability = (if direction' = ''LEFT'' then left_prob else right_prob),
                      amplitude_left = alpha psi',
                      amplitude_right = beta psi',
                      entropy = entropy',
                      coherence = coherence',
                      timestamp = now\<rparr>;
          sim1 = sim\<lparr>wavefunction := psi',
                     current_state := (if direction' = ''LEFT'' then LEFT_COLLAPSED
                                       else RIGHT_COLLAPSED)\<rparr>;
          sim2 = sim1\<lparr>decision_history := decision_history sim1 @ [decision],
                      total_decisions := total_decisions sim1 + 1\<rparr>
      in (decision, reset_to_superposition sim2))"

text \<open>
  A caller that invokes \<open>make_quantum_decision\<close> once per element of a list of
  environment readings, as the loops of the tests and examples do; it returns the
  decisions in call order and the simulator after the last call.
\<close>

fun make_quantum_decisions ::
    "QuantumWalkSimulator \<Rightarrow> (entropy_sources \<times> real) list \<Rightarrow> QuantumDecision list \<times> QuantumWalkSimulator" where
  "make_quantum_decisions sim [] = ([], sim)"
| "make_quantum_decisions sim (e # es) =
     (let (d, sim1) = make_quantum_decision sim (fst e) (snd e);
          (ds, sim2) = make_quantum_decisions sim1 es
      in (d # ds, sim2))"


subsection \<open>QuantumStateAnalyzer\<close>

text \<open>
  The reports are Python dictionaries with string keys. A dictionary is an association
  list in insertion order; numbers (Python ints and floats, which compare numerically)
  are \<open>PNum\<close>. \<open>math.erf\<close> is a parameter \<open>erf\<close> of every function that reaches
  \<open>_standard_normal_cdf\<close>.
\<close>

datatype pyval =
    PStr string
  | PNum real
  | PList "pyval list"
  | PDict "(string \<times> pyval) list"

type_synonym pydict = "(string \<times> pyval) list"

definition standard_normal_cdf :: "(real \<Rightarrow> real) \<Rightarrow> real \<Rightarrow> real" where
  "standard_normal_cdf erf x = 0.5 * (1 + erf (x / sqrt 2))"

definition count_runs :: "int list \<Rightarrow> nat" where
  \<comment> \<open>the loop \<open>for i in range(1, n)\<close> of \<open>_runs_test\<close>, starting from \<open>runs = 1\<close>\<close>
  "count_runs sequence =
     fold (\<lambda>i runs. if sequence ! i \<noteq> sequence ! (i - 1) then runs + 1 else runs)
          [1..<length sequence] 1"

definition maximal_constant_runs :: "int list \<Rightarrow> nat" where
  \<comment> \<open>Following the specification's words, not the source: the number of maximal
      constant subsequences (runs). \<^const>\<open>remdups_adj\<close> keeps one element of each.\<close>
  "maximal_constant_runs sequence = length (remdups_adj sequence)"

definition runs_test :: "(real \<Rightarrow> real) \<Rightarrow> int list \<Rightarrow> pydict" where
  "runs_test erf sequence =
     (let n = length sequence
      in if n < 2 then [(''test'', PStr ''runs''), (''result'', PStr ''insufficient_data'')]
         else
           let runs = count_runs sequence;
               ones = sum_list sequence;
               zeros = int n - ones
           in if ones = 0 \<or> zeros = 0
              then [(''test'', PStr ''runs''), (''result'', PStr ''degenerate'')]
              else
                let expected_runs = real_of_int (2 * ones * zeros) / real n + 1;
                    variance = real_of_int (2 * ones * zeros * (2 * ones * zeros - int n))
                               / real (n * n * (n - 1));
                    z_stat = (if variance > 0
                              then (real runs - expected_runs) / sqrt variance else 0);
                    p_value = (if variance > 0
                               then 2 * (1 - standard_normal_cdf erf \<bar>z_stat\<bar>) else 1)
                in [(''test'', PStr ''runs''),
                    (''runs_observed'', PNum (real runs)),
                    (''runs_expected'', PNum expected_runs),
                    (''z_statistic'', PNum z_stat),
                    (''p_value'', PNum p_value),
                    (''result'', PStr (if p_value > 0.05 then ''random'' else ''non_random''))])"

definition frequency_test :: "(real \<Rightarrow> real) \<Rightarrow> int list \<Rightarrow> pydict" where
  "frequency_test erf sequence =
     (let n = length sequence
      in if n = 0 then [(''test'', PStr ''frequency''), (''result'', PStr ''insufficient_data'')]
         else
           let ones = sum_list sequence;
               proportion = real_of_int ones / real n;
               expected_proportion = 0.5;
               z_stat = (proportion - expected_proportion)
                        / sqrt (expected_proportion * (1 - expected_proportion) / real n);
               p_value = 2 * (1 - standard_normal_cdf erf \<bar>z_stat\<bar>)
           in [(''test'', PStr ''frequency''),
               (''proportion_ones'', PNum proportion),
               (''expected_proportion'', PNum expected_proportion),
               (''z_statistic'', PNum z_stat),
               (''p_value'', PNum p_value),
               (''result'', PStr (if p_value > 0.05 then ''random'' else ''biased''))])"

definition autocorrelation_test :: "int list \<Rightarrow> nat \<Rightarrow> pydict" where
  "autocorrelation_test sequence max_lag =
     (let n = length sequence
      in if n < max_lag * 2
         then [(''test'', PStr ''autocorrelation''), (''result'', PStr ''insufficient_data'')]
         else
           let mean_val = real_of_int (sum_list sequence) / real n;
               centered = map (\<lambda>x. real_of_int x - mean_val) sequence;
               autocorrs =
                 map (\<lambda>lag.
                        let numerator = sum_list (map (\<lambda>i. centered ! i * centered ! (i + lag))
                                                      [0..<n - lag]);
                            denominator = sum_list (map (\<lambda>x. x * x) centered)
                        in if denominator > 0 then numerator / denominator else 0)
                     [1..<min (max_lag + 1) (n div 2)];
               max_autocorr = (case map abs autocorrs of [] \<Rightarrow> 0 | a # as \<Rightarrow> fold max as a)
           in [(''test'', PStr ''autocorrelation''),
               (''autocorrelations'', PList (map PNum autocorrs)),
               (''max_autocorrelation'', PNum max_autocorr),
               (''result'', PStr (if max_autocorr < 0.2 then ''random'' else ''correlated''))])"

fun dict_get :: "('k \<times> 'v) list \<Rightarrow> 'k \<Rightarrow> 'v \<Rightarrow> 'v" where
  \<comment> \<open>\<open>d.get(k, default)\<close>\<close>
  "dict_get [] k dflt = dflt"
| "dict_get ((k', v) # kvs) k dflt = (if k' = k then v else dict_get kvs k dflt)"

fun dict_set :: "('k \<times> 'v) list \<Rightarrow> 'k \<Rightarrow> 'v \<Rightarrow> ('k \<times> 'v) list" where
  \<comment> \<open>\<open>d[k] = v\<close>: an existing key keeps its place, a new key goes last\<close>
  "dict_set [] k v = [(k, v)]"
| "dict_set ((k', v') # kvs) k v = (if k' = k then (k, v) # kvs else (k', v') # dict_set kvs k v)"

definition entropy_rate :: "int list \<Rightarrow> real" where
  "entropy_rate sequence =
     (if length sequence < 2 then 0
      else
        let bigram_counts =
              fold (\<lambda>i counts.
                      let bigram = (sequence ! i, sequence ! (i + 1))
                      in dict_set counts bigram (dict_get counts bigram (0::nat) + 1))
                   [0..<length sequence - 1] [];
            total_bigrams = length sequence - 1
        in fold (\<lambda>count rate.
                   if count > 0
                   then (let prob = real count / real total_bigrams
                         in rate - prob * log 2 prob)
                   else rate)
                (map snd bigram_counts) 0)"

definition analyze_randomness_quality :: "(real \<Rightarrow> real) \<Rightarrow> QuantumDecision list \<Rightarrow> pydict" where
  "analyze_randomness_quality erf decisions =
     (if length decisions < 2 then []
      else
        let binary_sequence = map (\<lambda>d. if direction d = ''LEFT'' then 1 else 0) decisions
        in [(''sequence_length'', PNum (real (length binary_sequence))),
            (''runs_test'', PDict (runs_test erf binary_sequence)),
            (''frequency_test'', PDict (frequency_test erf binary_sequence)),
            (''autocorrelation'', PDict (autocorrelation_test binary_sequence 10)),
            (''entropy_rate'', PNum (entropy_rate binary_sequence))])"

section \<open>Normalisation\<close>

lemma unit_fraction:
  fixes x y :: real
  assumes "0 < x + y"
  shows "x / (x + y) + y / (x + y) = 1"
  using assms by (simp add: add_divide_distrib [symmetric])

lemma norm_sq_pos:
  assumes "a \<noteq> 0 \<or> b \<noteq> 0"
  shows "0 < (cmod a)\<^sup>2 + (cmod b)\<^sup>2"
proof (cases "a = 0")
  case True
  then have "b \<noteq> 0" using assms by simp
  then show ?thesis using True by simp
next
  case False
  then have "0 < (cmod a)\<^sup>2" by simp
  then show ?thesis by (simp add: add_pos_nonneg)
qed

lemma normalize_wf_nonzero:
  assumes "alpha psi \<noteq> 0 \<or> beta psi \<noteq> 0"
  shows "normalize_wf psi =
         psi\<lparr>alpha := alpha psi / of_real (sqrt ((cmod (alpha psi))\<^sup>2 + (cmod (beta psi))\<^sup>2)),
             beta := beta psi / of_real (sqrt ((cmod (alpha psi))\<^sup>2 + (cmod (beta psi))\<^sup>2))\<rparr>"
proof -
  have "0 < sqrt ((cmod (alpha psi))\<^sup>2 + (cmod (beta psi))\<^sup>2)"
    using norm_sq_pos [OF assms] by (rule real_sqrt_gt_zero)
  then show ?thesis by (simp add: normalize_wf_def Let_def)
qed

lemma normalize_wf_probabilities:
  assumes "alpha psi \<noteq> 0 \<or> beta psi \<noteq> 0"
  shows "get_probabilities (normalize_wf psi) =
         ((cmod (alpha psi))\<^sup>2 / ((cmod (alpha psi))\<^sup>2 + (cmod (beta psi))\<^sup>2),
          (cmod (beta psi))\<^sup>2 / ((cmod (alpha psi))\<^sup>2 + (cmod (beta psi))\<^sup>2))"
proof -
  define s where "s = (cmod (alpha psi))\<^sup>2 + (cmod (beta psi))\<^sup>2"
  have pos: "0 < s" unfolding s_def by (rule norm_sq_pos [OF assms])
  then have sq: "0 < sqrt s" by (rule real_sqrt_gt_zero)
  have sq2: "(sqrt s)\<^sup>2 = s" using pos by simp
  have a: "(cmod (alpha psi / of_real (sqrt s)))\<^sup>2 = (cmod (alpha psi))\<^sup>2 / s"
    using sq by (simp add: norm_divide power_divide sq2)
  have b: "(cmod (beta psi / of_real (sqrt s)))\<^sup>2 = (cmod (beta psi))\<^sup>2 / s"
    using sq by (simp add: norm_divide power_divide sq2)
  show ?thesis
    using a b by (simp add: normalize_wf_nonzero [OF assms] get_probabilities_def s_def)
qed

lemma normalize_wf_unit:
  assumes "alpha psi \<noteq> 0 \<or> beta psi \<noteq> 0"
  shows "(cmod (alpha (normalize_wf psi)))\<^sup>2 + (cmod (beta (normalize_wf psi)))\<^sup>2 = 1"
proof -
  have "fst (get_probabilities (normalize_wf psi)) + snd (get_probabilities (normalize_wf psi)) = 1"
    unfolding normalize_wf_probabilities [OF assms] fst_conv snd_conv
    by (rule unit_fraction) (rule norm_sq_pos [OF assms])
  then show ?thesis by (simp add: get_probabilities_def)
qed

lemma normalize_wf_zero:
  assumes "alpha psi = 0" and "beta psi = 0"
  shows "normalize_wf psi = psi"
  using assms by (simp add: normalize_wf_def)

section \<open>Coherence\<close>

lemma coherence_bound:
  "0 \<le> cmod (cnj a * b) \<and> cmod (cnj a * b) \<le> ((cmod a)\<^sup>2 + (cmod b)\<^sup>2) / 2"
proof -
  have "0 \<le> (cmod a - cmod b)\<^sup>2" by simp
  then have "2 * (cmod a * cmod b) \<le> (cmod a)\<^sup>2 + (cmod b)\<^sup>2"
    by (simp add: power2_diff)
  then show ?thesis by (simp add: norm_mult)
qed

lemma half_product:
  fixes x y :: real
  assumes "0 \<le> x" "0 \<le> y" "x\<^sup>2 = 1 / 2" "y\<^sup>2 = 1 / 2"
  shows "x * y = 1 / 2"
proof -
  have "x\<^sup>2 = y\<^sup>2" by (simp only: assms(3,4))
  then have "x = y" using assms(1,2) by (rule power2_eq_imp_eq)
  then show ?thesis using assms(3) by (simp add: power2_eq_square)
qed

lemma initialize_equal_probabilities:
  "get_probabilities (wavefunction (initialize sim (707 / 1000) (707 / 1000) ct nl)) = (1 / 2, 1 / 2)"
proof -
  let ?psi = "(wavefunction sim)\<lparr>alpha := Complex (707 / 1000) 0, beta := Complex (707 / 1000) 0\<rparr>"
  have nz: "alpha ?psi \<noteq> 0 \<or> beta ?psi \<noteq> 0"
    by (simp add: complex_eq_iff)
  show ?thesis
    by (simp add: initialize_def normalize_wf_probabilities [OF nz] cmod_def)
qed

text \<open>
  Claim C9. \<open>calculate_coherence\<close> returns \<open>|conjugate(alpha) * beta|\<close>. For every
  amplitude pair with \<open>|alpha|\<^sup>2 + |beta|\<^sup>2 = 1\<close> the value lies in \<open>[0, 1/2]\<close>. It is
  \<open>0\<close> right after a collapse and at every state with one amplitude of magnitude 1 and
  the other of magnitude 0. At the pair \<open>(0.707, 0.707)\<close> that
  \<open>reset_to_superposition\<close> stores it is \<open>0.499849\<close>, within \<open>0.001\<close> of the maximum
  \<open>1/2\<close>, and after \<open>initialize(0.707, 0.707, ...)\<close>, which normalises, it is exactly
  \<open>1/2\<close>.
\<close>

theorem calculate_coherence_range:
  "calculate_coherence sim = cmod (cnj (alpha (wavefunction sim)) * beta (wavefunction sim))
   \<and> ((cmod (alpha (wavefunction sim)))\<^sup>2 + (cmod (beta (wavefunction sim)))\<^sup>2 = 1
        \<longrightarrow> 0 \<le> calculate_coherence sim \<and> calculate_coherence sim \<le> 1 / 2)
   \<and> calculate_coherence (sim\<lparr>wavefunction := snd (collapse (wavefunction sim) src)\<rparr>) = 0
   \<and> ((cmod (alpha (wavefunction sim)) = 1 \<and> cmod (beta (wavefunction sim)) = 0
        \<or> cmod (alpha (wavefunction sim)) = 0 \<and> cmod (beta (wavefunction sim)) = 1)
        \<longrightarrow> calculate_coherence sim = 0)
   \<and> calculate_coherence (reset_to_superposition sim) = 499849 / 1000000
   \<and> \<bar>calculate_coherence (reset_to_superposition sim) - 1 / 2\<bar> < 1 / 1000
   \<and> calculate_coherence (initialize sim (707 / 1000) (707 / 1000) ct nl) = 1 / 2"
proof -
  have c1: "calculate_coherence sim = cmod (cnj (alpha (wavefunction sim)) * beta (wavefunction sim))"
    by (simp add: calculate_coherence_def)
  have c2: "(cmod (alpha (wavefunction sim)))\<^sup>2 + (cmod (beta (wavefunction sim)))\<^sup>2 = 1
        \<longrightarrow> 0 \<le> calculate_coherence sim \<and> calculate_coherence sim \<le> 1 / 2"
    using coherence_bound [of "alpha (wavefunction sim)" "beta (wavefunction sim)"]
    unfolding c1 by auto
  have c3: "calculate_coherence (sim\<lparr>wavefunction := snd (collapse (wavefunction sim) src)\<rparr>) = 0"
    by (simp add: calculate_coherence_def collapse_def get_probabilities_def Let_def)
  have c4: "(cmod (alpha (wavefunction sim)) = 1 \<and> cmod (beta (wavefunction sim)) = 0
        \<or> cmod (alpha (wavefunction sim)) = 0 \<and> cmod (beta (wavefunction sim)) = 1)
        \<longrightarrow> calculate_coherence sim = 0"
    unfolding c1 by (auto simp: norm_mult)
  have c5: "calculate_coherence (reset_to_superposition sim) = 499849 / 1000000"
    by (simp add: calculate_coherence_def reset_to_superposition_def norm_mult cmod_def)
  have c6: "\<bar>calculate_coherence (reset_to_superposition sim) - 1 / 2\<bar> < 1 / 1000"
    unfolding c5 by simp
  have c7: "calculate_coherence (initialize sim (707 / 1000) (707 / 1000) ct nl) = 1 / 2"
  proof -
    let ?psi = "wavefunction (initialize sim (707 / 1000) (707 / 1000) ct nl)"
    have "(cmod (alpha ?psi))\<^sup>2 = 1 / 2" "(cmod (beta ?psi))\<^sup>2 = 1 / 2"
      using initialize_equal_probabilities [of sim ct nl]
      by (simp_all add: get_probabilities_def)
    then have "cmod (alpha ?psi) * cmod (beta ?psi) = 1 / 2"
      by (intro half_product) simp_all
    then show ?thesis by (simp add: calculate_coherence_def norm_mult)
  qed
  show ?thesis using c1 c2 c3 c4 c5 c6 c7 by blast
qed

theorem calculate_coherence_range_witness:
  "(cmod (3 / 5))\<^sup>2 + (cmod (4 / 5))\<^sup>2 = 1
   \<and> 0 \<le> calculate_coherence (QuantumWalkSimulator_init\<lparr>wavefunction := \<lparr>alpha = 3 / 5, beta = 4 / 5\<rparr>\<rparr>)
   \<and> calculate_coherence (QuantumWalkSimulator_init\<lparr>wavefunction := \<lparr>alpha = 3 / 5, beta = 4 / 5\<rparr>\<rparr>) \<le> 1 / 2
   \<and> cmod 0 = 0 \<and> cmod 1 = 1
   \<and> calculate_coherence (QuantumWalkSimulator_init\<lparr>wavefunction := \<lparr>alpha = 0, beta = 1\<rparr>\<rparr>) = 0"
  using calculate_coherence_range
          [of "QuantumWalkSimulator_init\<lparr>wavefunction := \<lparr>alpha = 3 / 5, beta = 4 / 5\<rparr>\<rparr>" "(0, 0, 0)" 1 0]
        calculate_coherence_range
          [of "QuantumWalkSimulator_init\<lparr>wavefunction := \<lparr>alpha = 0, beta = 1\<rparr>\<rparr>" "(0, 0, 0)" 1 0]
  by (simp add: power_divide)

section \<open>Collapse\<close>


lemma collapse_unfold:
  "collapse psi src =
     (if quantum_random src < fst (get_probabilities psi)
      then (''LEFT'', psi\<lparr>alpha := 1, beta := 0\<rparr>)
      else (''RIGHT'', psi\<lparr>alpha := 0, beta := 1\<rparr>))"
  by (simp add: collapse_def Let_def split_beta)



subsection \<open>The random source is not uniform\<close>















section \<open>Decisions\<close>

text \<open>
  Claim C3. \<open>make_quantum_decision\<close> records in the decision the direction that
  \<open>collapse\<close> chose on the wavefunction as it was before the call, the probability of
  that direction, the entropy and the coherence, all taken before the collapse; it
  appends the decision to \<open>decision_history\<close>; and it returns with the amplitude pair
  reset to \<open>(0.707, 0.707)\<close> and the state SUPERPOSITION.
\<close>

theorem make_quantum_decision_spec:
  "(let (d, sim') = make_quantum_decision sim src now
    in direction d = fst (collapse (wavefunction sim) src)
     \<and> (direction d = ''LEFT'' \<or> direction d = ''RIGHT'')
     \<and> probability d = (if direction d = ''LEFT''
                        then fst (get_probabilities (wavefunction sim))
                        else snd (get_probabilities (wavefunction sim)))
     \<and> entropy d = calculate_entropy sim
     \<and> coherence d = calculate_coherence sim
     \<and> decision_history sim' = decision_history sim @ [d]
     \<and> alpha (wavefunction sim') = Complex (707 / 1000) 0
     \<and> beta (wavefunction sim') = Complex (707 / 1000) 0
     \<and> current_state sim' = SUPERPOSITION)"
  by (simp add: make_quantum_decision_def reset_to_superposition_def collapse_unfold
                Let_def split_beta)

text \<open>
  Claim C1. The claim demands \<open>|alpha|\<^sup>2 + |beta|\<^sup>2\<close> within \<open>1e-6\<close> of 1 after
  \<open>make_quantum_decision\<close>. On a freshly constructed simulator the call leaves the pair
  \<open>(0.707, 0.707)\<close>, which \<open>reset_to_superposition\<close> stores without normalising:
  the sum is \<open>0.999698\<close>, below \<open>1 - 1e-6\<close>.
\<close>

theorem make_quantum_decision_unnormalised:
  "(let sim' = snd (make_quantum_decision QuantumWalkSimulator_init (0, 0, 0) 0)
    in (cmod (alpha (wavefunction sim')))\<^sup>2 + (cmod (beta (wavefunction sim')))\<^sup>2 = 999698 / 1000000
     \<and> (cmod (alpha (wavefunction sim')))\<^sup>2 + (cmod (beta (wavefunction sim')))\<^sup>2 < 1 - 1 / 1000000)"
  by (simp add: make_quantum_decision_def reset_to_superposition_def collapse_unfold
                Let_def split_beta cmod_def power_divide)

theorem make_quantum_decision_spec_witness:
  "(let (d, sim') = make_quantum_decision
                      (QuantumWalkSimulator_init\<lparr>wavefunction := \<lparr>alpha = 3 / 5, beta = 4 / 5\<rparr>\<rparr>)
                      (0, 123456, 0) 7
    in direction d = ''LEFT'' \<and> probability d = 9 / 25
     \<and> decision_history sim' = [d]
     \<and> wavefunction sim' = \<lparr>alpha = Complex (707 / 1000) 0, beta = Complex (707 / 1000) 0\<rparr>
     \<and> current_state sim' = SUPERPOSITION)"
  using make_quantum_decision_spec
          [of "QuantumWalkSimulator_init\<lparr>wavefunction := \<lparr>alpha = 3 / 5, beta = 4 / 5\<rparr>\<rparr>"
              "(0, 123456, 0)" 7]
  by (simp add: split_beta collapse_unfold quantum_random_def py_int_def get_probabilities_def
                power_divide QuantumWalkSimulator_init_def)

section \<open>Decoherence\<close>

lemma scaled_fraction:
  fixes x y k :: real
  assumes "0 < k"
  shows "(x * k)\<^sup>2 / ((x * k)\<^sup>2 + (y * k)\<^sup>2) = x\<^sup>2 / (x\<^sup>2 + y\<^sup>2)"
proof -
  have "(x * k)\<^sup>2 + (y * k)\<^sup>2 = k\<^sup>2 * (x\<^sup>2 + y\<^sup>2)"
    by (simp add: power_mult_distrib distrib_left mult.commute)
  moreover have "(x * k)\<^sup>2 = k\<^sup>2 * x\<^sup>2"
    by (simp add: power_mult_distrib mult.commute)
  moreover have "k\<^sup>2 \<noteq> 0" using assms by simp
  ultimately show ?thesis by simp
qed

lemma apply_decoherence_probabilities:
  assumes "alpha psi \<noteq> 0 \<or> beta psi \<noteq> 0"
  shows "get_probabilities (apply_decoherence psi rate dt u) =
         ((cmod (alpha psi))\<^sup>2 / ((cmod (alpha psi))\<^sup>2 + (cmod (beta psi))\<^sup>2),
          (cmod (beta psi))\<^sup>2 / ((cmod (alpha psi))\<^sup>2 + (cmod (beta psi))\<^sup>2))"
proof -
  define k where "k = exp (\<i> * of_real (2 * pi * u * rate * dt)) * of_real (exp (- rate * dt))"
  define psi' where "psi' = psi\<lparr>alpha := alpha psi * k, beta := beta psi * k\<rparr>"
  have ck: "cmod k = exp (- rate * dt)"
    by (simp add: k_def norm_mult)
  have kpos: "0 < cmod k" unfolding ck by simp
  then have "k \<noteq> 0" by auto
  then have nz: "alpha psi' \<noteq> 0 \<or> beta psi' \<noteq> 0"
    using assms by (simp add: psi'_def)
  have ad: "apply_decoherence psi rate dt u = normalize_wf psi'"
    by (simp add: apply_decoherence_def psi'_def k_def Let_def)
  have a: "cmod (alpha psi') = cmod (alpha psi) * cmod k"
    and b: "cmod (beta psi') = cmod (beta psi) * cmod k"
    by (simp_all add: psi'_def norm_mult)
  have l: "(cmod (alpha psi'))\<^sup>2 / ((cmod (alpha psi'))\<^sup>2 + (cmod (beta psi'))\<^sup>2)
           = (cmod (alpha psi))\<^sup>2 / ((cmod (alpha psi))\<^sup>2 + (cmod (beta psi))\<^sup>2)"
    unfolding a b by (rule scaled_fraction [OF kpos])
  have r: "(cmod (beta psi'))\<^sup>2 / ((cmod (alpha psi'))\<^sup>2 + (cmod (beta psi'))\<^sup>2)
           = (cmod (beta psi))\<^sup>2 / ((cmod (alpha psi))\<^sup>2 + (cmod (beta psi))\<^sup>2)"
    using scaled_fraction [OF kpos, of "cmod (beta psi)" "cmod (alpha psi)"]
    unfolding a b by (simp add: add.commute)
  show ?thesis
    unfolding ad normalize_wf_probabilities [OF nz] l r ..
qed

text \<open>
  On a pair that is not normalised the probabilities do change: the pair
  \<open>(0.707, 0.707)\<close> that \<open>reset_to_superposition\<close> stores has probabilities
  \<open>(0.499849, 0.499849)\<close>, and \<open>apply_decoherence\<close> turns them into \<open>(1/2, 1/2)\<close>.
\<close>

theorem apply_decoherence_probabilities_counterexample:
  "get_probabilities (apply_decoherence \<lparr>alpha = Complex (707 / 1000) 0, beta = Complex (707 / 1000) 0\<rparr>
                        (1 / 10) 1 0)
   \<noteq> get_probabilities \<lparr>alpha = Complex (707 / 1000) 0, beta = Complex (707 / 1000) 0\<rparr>"
proof -
  have nz: "alpha \<lparr>alpha = Complex (707 / 1000) 0, beta = Complex (707 / 1000) 0\<rparr> \<noteq> 0
          \<or> beta \<lparr>alpha = Complex (707 / 1000) 0, beta = Complex (707 / 1000) 0\<rparr> \<noteq> 0"
    by (simp add: complex_eq_iff)
  show ?thesis
    unfolding apply_decoherence_probabilities [OF nz]
    by (simp add: get_probabilities_def cmod_def power_divide)
qed

text \<open>
  Claim C10, amended. Let the rate and the time step be of ordinary magnitude with
  \<open>|rate * dt| \<le> 100\<close>, and let the random draw lie in \<open>[0, 1)\<close>. Then for every
  amplitude pair with \<open>|alpha|\<^sup>2 + |beta|\<^sup>2 = 1\<close>, \<open>get_probabilities\<close> returns the same pair
  of values after \<open>apply_decoherence\<close> as before; and for every pair of nonzero norm
  whose amplitudes are of ordinary magnitude the probabilities afterwards are the ones
  before divided by their sum. (Under these bounds the decay factor lies between
  \<open>3.7e-44\<close> and \<open>2.7e43\<close>, so no square taken by \<open>normalize\<close> leaves the range of
  normal doubles.)
\<close>

theorem apply_decoherence_preserves_normalised:
  "ordinary_magnitude rate \<and> ordinary_magnitude dt \<and> \<bar>rate * dt\<bar> \<le> 100 \<and> 0 \<le> u \<and> u < 1 \<longrightarrow>
     ((cmod (alpha psi))\<^sup>2 + (cmod (beta psi))\<^sup>2 = 1
        \<longrightarrow> get_probabilities (apply_decoherence psi rate dt u) = get_probabilities psi)
     \<and> ((alpha psi \<noteq> 0 \<or> beta psi \<noteq> 0)
          \<and> ordinary_magnitude (cmod (alpha psi)) \<and> ordinary_magnitude (cmod (beta psi))
        \<longrightarrow> get_probabilities (apply_decoherence psi rate dt u) =
              (fst (get_probabilities psi) / (fst (get_probabilities psi) + snd (get_probabilities psi)),
               snd (get_probabilities psi) / (fst (get_probabilities psi) + snd (get_probabilities psi))))"
proof (intro conjI impI)
  assume n: "(cmod (alpha psi))\<^sup>2 + (cmod (beta psi))\<^sup>2 = 1"
  have "alpha psi \<noteq> 0 \<or> beta psi \<noteq> 0"
  proof (rule ccontr)
    assume "\<not> ?thesis"
    then show False using n by simp
  qed
  from apply_decoherence_probabilities [OF this]
  show "get_probabilities (apply_decoherence psi rate dt u) = get_probabilities psi"
    by (simp add: n get_probabilities_def)
next
  assume "(alpha psi \<noteq> 0 \<or> beta psi \<noteq> 0)
          \<and> ordinary_magnitude (cmod (alpha psi)) \<and> ordinary_magnitude (cmod (beta psi))"
  then have "alpha psi \<noteq> 0 \<or> beta psi \<noteq> 0" by (rule conjunct1)
  from apply_decoherence_probabilities [OF this]
  show "get_probabilities (apply_decoherence psi rate dt u) =
            (fst (get_probabilities psi) / (fst (get_probabilities psi) + snd (get_probabilities psi)),
             snd (get_probabilities psi) / (fst (get_probabilities psi) + snd (get_probabilities psi)))"
    by (simp add: get_probabilities_def)
qed

theorem apply_decoherence_preserves_normalised_witness:
  "ordinary_magnitude (1 / 10) \<and> ordinary_magnitude 2 \<and> \<bar>1 / 10 * 2 :: real\<bar> \<le> 100
   \<and> (0::real) \<le> 1 / 2 \<and> (1 / 2 :: real) < 1
   \<and> (cmod (3 / 5))\<^sup>2 + (cmod (4 / 5))\<^sup>2 = 1
   \<and> ordinary_magnitude (cmod (3 / 5)) \<and> ordinary_magnitude (cmod (4 / 5))
   \<and> get_probabilities (apply_decoherence \<lparr>alpha = 3 / 5, beta = 4 / 5\<rparr> (1 / 10) 2 (1 / 2)) = (9 / 25, 16 / 25)"
  using apply_decoherence_preserves_normalised
          [where psi = "\<lparr>alpha = 3 / 5, beta = 4 / 5\<rparr>" and rate = "1 / 10" and dt = 2 and u = "1 / 2"]
  by (simp add: get_probabilities_def power_divide ordinary_magnitude_def)

section \<open>Time steps\<close>

text \<open>
  \<open>step\<close> has no \<open>dt\<close> parameter. On a freshly constructed simulator
  (\<open>last_decision_time = 0\<close>) a call only records the clock reading: nothing is
  appended to the histories and the wavefunction is left as it was.
\<close>

theorem step_first_call_counterexample:
  "(let sim' = step QuantumWalkSimulator_init 5
                 \<lparr>phase_u = 0, z_alpha_re = 0, z_alpha_im = 0, z_beta_re = 0, z_beta_im = 0\<rparr>
    in entropy_history sim' = [] \<and> coherence_history sim' = []
     \<and> wavefunction sim' = wavefunction QuantumWalkSimulator_init
     \<and> last_decision_time sim' = 5)"
  by (simp add: step_def QuantumWalkSimulator_init_def)

text \<open>
  Claim C4, amended. \<open>step\<close> reads the clock itself. When \<open>last_decision_time > 0\<close> it
  takes \<open>dt = current_time - last_decision_time\<close>, applies
  \<open>apply_decoherence(decoherence_rate, dt)\<close>, then, only when \<open>noise_level > 0\<close>, adds
  to the real and imaginary parts of both amplitudes Gaussian noise of mean 0 and
  standard deviation \<open>noise_level * dt\<close> and renormalises, and appends the entropy and
  the coherence of the evolved state to \<open>entropy_history\<close> and \<open>coherence_history\<close>,
  each of which drops its oldest entry when it has grown beyond 1000. When
  \<open>last_decision_time \<le> 0\<close> it does none of this. In both cases it stores the clock
  reading in \<open>last_decision_time\<close>.
\<close>

theorem step_spec:
  "(last_decision_time sim > 0 \<longrightarrow>
      (let dt = current_time - last_decision_time sim;
           psi1 = apply_decoherence (wavefunction sim) (decoherence_rate sim) dt (phase_u d);
           sigma = noise_level sim * dt;
           psi2 = (if noise_level sim > 0
                   then normalize_wf
                          (psi1\<lparr>alpha := alpha psi1 + Complex (0 + z_alpha_re d * sigma) (0 + z_alpha_im d * sigma),
                                beta := beta psi1 + Complex (0 + z_beta_re d * sigma) (0 + z_beta_im d * sigma)\<rparr>)
                   else psi1);
           sim2 = sim\<lparr>wavefunction := psi2\<rparr>;
           eh = entropy_history sim @ [calculate_entropy sim2];
           ch = coherence_history sim @ [calculate_coherence sim2]
       in step sim current_time d =
            sim\<lparr>wavefunction := psi2,
                entropy_history := (if length eh > 1000 then tl eh else eh),
                coherence_history := (if length ch > 1000 then tl ch else ch),
                last_decision_time := current_time\<rparr>))
   \<and> (\<not> last_decision_time sim > 0 \<longrightarrow>
        step sim current_time d = sim\<lparr>last_decision_time := current_time\<rparr>)"
  by (simp add: step_def evolve_quantum_state_def update_histories_def gauss_def Let_def
                calculate_entropy_def calculate_coherence_def)

theorem step_spec_witness:
  "(let sim = QuantumWalkSimulator_init\<lparr>wavefunction := \<lparr>alpha = 3 / 5, beta = 4 / 5\<rparr>,
                                         decoherence_rate := 0, last_decision_time := 1\<rparr>;
        sim' = step sim 3 \<lparr>phase_u = 0, z_alpha_re = 0, z_alpha_im = 0, z_beta_re = 0, z_beta_im = 0\<rparr>
    in last_decision_time sim > 0
     \<and> wavefunction sim' = \<lparr>alpha = 3 / 5, beta = 4 / 5\<rparr>
     \<and> length (entropy_history sim') = 1 \<and> coherence_history sim' = [12 / 25]
     \<and> last_decision_time sim' = 3)
   \<and> \<not> last_decision_time QuantumWalkSimulator_init > 0
   \<and> step QuantumWalkSimulator_init 9
        \<lparr>phase_u = 1 / 2, z_alpha_re = 1, z_alpha_im = 1, z_beta_re = 1, z_beta_im = 1\<rparr>
      = QuantumWalkSimulator_init\<lparr>last_decision_time := 9\<rparr>"
  using step_spec [of "QuantumWalkSimulator_init\<lparr>wavefunction := \<lparr>alpha = 3 / 5, beta = 4 / 5\<rparr>,
                                         decoherence_rate := 0, last_decision_time := 1\<rparr>"
                     3 "\<lparr>phase_u = 0, z_alpha_re = 0, z_alpha_im = 0, z_beta_re = 0, z_beta_im = 0\<rparr>"]
        step_spec [of QuantumWalkSimulator_init 9
                     "\<lparr>phase_u = 1 / 2, z_alpha_re = 1, z_alpha_im = 1, z_beta_re = 1, z_beta_im = 1\<rparr>"]
  by (simp add: QuantumWalkSimulator_init_def apply_decoherence_def normalize_wf_def Let_def
                power_divide calculate_coherence_def zero_complex.code [symmetric])

section \<open>Initialisation\<close>

text \<open>
  \<open>initialize\<close> validates nothing: with \<open>left_amplitude = 2\<close> and
  \<open>coherence_time = -1\<close> it returns normally with the engine updated.
\<close>

theorem initialize_no_validation_counterexample:
  "(let sim' = initialize QuantumWalkSimulator_init 2 0 (- 1) (1 / 10)
    in coherence_time sim' = - 1 \<and> decoherence_rate sim' = 0
     \<and> wavefunction sim' = \<lparr>alpha = 1, beta = 0\<rparr>
     \<and> sim' \<noteq> QuantumWalkSimulator_init)"
  by (simp add: initialize_def QuantumWalkSimulator_init_def QuantumWavefunction_init_def
                normalize_wf_def Let_def complex_of_real_def [symmetric])

lemma normalize_real_pair:
  assumes "l \<noteq> 0 \<or> r \<noteq> 0"
  shows "normalize_wf (psi\<lparr>alpha := Complex l 0, beta := Complex r 0\<rparr>) =
         psi\<lparr>alpha := Complex (l / sqrt (l\<^sup>2 + r\<^sup>2)) 0, beta := Complex (r / sqrt (l\<^sup>2 + r\<^sup>2)) 0\<rparr>"
proof -
  let ?psi = "psi\<lparr>alpha := Complex l 0, beta := Complex r 0\<rparr>"
  have nz: "alpha ?psi \<noteq> 0 \<or> beta ?psi \<noteq> 0"
    using assms by (simp add: complex_eq_iff)
  have sq: "(cmod (alpha ?psi))\<^sup>2 = l\<^sup>2" "(cmod (beta ?psi))\<^sup>2 = r\<^sup>2"
    by (simp_all add: cmod_def)
  show ?thesis
    unfolding normalize_wf_nonzero [OF nz] sq
    by (simp add: complex_eq_iff)
qed

text \<open>
  Claim C6, amended. \<open>initialize\<close> has no validation and no \<open>ConfigurationError\<close>: it
  accepts \<open>coherence_time \<le> 0\<close> and amplitudes outside \<open>[0, 1]\<close>. For amplitudes of
  ordinary magnitude and a \<open>coherence_time\<close> that is \<open>\<le> 0\<close> or of ordinary magnitude, it
  stores the amplitudes as real-valued complex numbers divided by
  \<open>sqrt(left\<^sup>2 + right\<^sup>2)\<close>, so that \<open>|alpha|\<^sup>2 + |beta|\<^sup>2 = 1\<close> (both stay \<open>0\<close> when both
  are \<open>0\<close>), stores \<open>coherence_time\<close> and \<open>noise_level\<close> as given, sets
  \<open>decoherence_rate = 1 / coherence_time\<close> when \<open>coherence_time > 0\<close> and
  \<open>decoherence_rate = 0\<close> otherwise, clears all three histories and sets the state to
  SUPERPOSITION; \<open>last_decision_time\<close> and \<open>total_decisions\<close> are kept. Nothing is said
  about arguments outside these magnitudes.
\<close>

theorem initialize_spec:
  "ordinary_magnitude left_amplitude \<and> ordinary_magnitude right_amplitude
   \<and> (ct \<le> 0 \<or> ordinary_magnitude ct) \<longrightarrow>
   (let sim' = initialize sim left_amplitude right_amplitude ct nl;
        norm = sqrt (left_amplitude\<^sup>2 + right_amplitude\<^sup>2)
    in (ct > 0 \<longrightarrow> decoherence_rate sim' = 1 / ct)
     \<and> (ct \<le> 0 \<longrightarrow> decoherence_rate sim' = 0)
     \<and> coherence_time sim' = ct \<and> noise_level sim' = nl
     \<and> (left_amplitude \<noteq> 0 \<or> right_amplitude \<noteq> 0 \<longrightarrow>
          alpha (wavefunction sim') = Complex (left_amplitude / norm) 0
        \<and> beta (wavefunction sim') = Complex (right_amplitude / norm) 0
        \<and> (cmod (alpha (wavefunction sim')))\<^sup>2 + (cmod (beta (wavefunction sim')))\<^sup>2 = 1)
     \<and> (left_amplitude = 0 \<and> right_amplitude = 0 \<longrightarrow>
          alpha (wavefunction sim') = 0 \<and> beta (wavefunction sim') = 0)
     \<and> decision_history sim' = [] \<and> entropy_history sim' = [] \<and> coherence_history sim' = []
     \<and> current_state sim' = SUPERPOSITION
     \<and> last_decision_time sim' = last_decision_time sim
     \<and> total_decisions sim' = total_decisions sim)"
proof -
  let ?psi = "(wavefunction sim)\<lparr>alpha := Complex left_amplitude 0, beta := Complex right_amplitude 0\<rparr>"
  let ?n = "sqrt (left_amplitude\<^sup>2 + right_amplitude\<^sup>2)"
  have w: "wavefunction (initialize sim left_amplitude right_amplitude ct nl) = normalize_wf ?psi"
    by (simp add: initialize_def)
  have nonzero: "left_amplitude \<noteq> 0 \<or> right_amplitude \<noteq> 0 \<longrightarrow>
          alpha (normalize_wf ?psi) = Complex (left_amplitude / ?n) 0
        \<and> beta (normalize_wf ?psi) = Complex (right_amplitude / ?n) 0
        \<and> (cmod (alpha (normalize_wf ?psi)))\<^sup>2 + (cmod (beta (normalize_wf ?psi)))\<^sup>2 = 1"
  proof
    assume a: "left_amplitude \<noteq> 0 \<or> right_amplitude \<noteq> 0"
    then have nz: "alpha ?psi \<noteq> 0 \<or> beta ?psi \<noteq> 0"
      by (simp add: complex_eq_iff)
    show "alpha (normalize_wf ?psi) = Complex (left_amplitude / ?n) 0
        \<and> beta (normalize_wf ?psi) = Complex (right_amplitude / ?n) 0
        \<and> (cmod (alpha (normalize_wf ?psi)))\<^sup>2 + (cmod (beta (normalize_wf ?psi)))\<^sup>2 = 1"
      using normalize_wf_unit [OF nz] by (simp add: normalize_real_pair [OF a])
  qed
  have zero: "left_amplitude = 0 \<and> right_amplitude = 0 \<longrightarrow>
          alpha (normalize_wf ?psi) = 0 \<and> beta (normalize_wf ?psi) = 0"
    by (simp add: normalize_wf_def zero_complex.code)
  have rest: "(ct > 0 \<longrightarrow> decoherence_rate (initialize sim left_amplitude right_amplitude ct nl) = 1 / ct)
     \<and> (ct \<le> 0 \<longrightarrow> decoherence_rate (initialize sim left_amplitude right_amplitude ct nl) = 0)
     \<and> coherence_time (initialize sim left_amplitude right_amplitude ct nl) = ct
     \<and> noise_level (initialize sim left_amplitude right_amplitude ct nl) = nl
     \<and> decision_history (initialize sim left_amplitude right_amplitude ct nl) = []
     \<and> entropy_history (initialize sim left_amplitude right_amplitude ct nl) = []
     \<and> coherence_history (initialize sim left_amplitude right_amplitude ct nl) = []
     \<and> current_state (initialize sim left_amplitude right_amplitude ct nl) = SUPERPOSITION
     \<and> last_decision_time (initialize sim left_amplitude right_amplitude ct nl) = last_decision_time sim
     \<and> total_decisions (initialize sim left_amplitude right_amplitude ct nl) = total_decisions sim"
    by (simp add: initialize_def)
  show ?thesis
    unfolding Let_def w using nonzero zero rest by blast
qed

theorem initialize_spec_witness:
  "ordinary_magnitude (6 / 10) \<and> ordinary_magnitude (8 / 10) \<and> ordinary_magnitude 2
   \<and> (0::real) < 2
   \<and> decoherence_rate (initialize QuantumWalkSimulator_init (6 / 10) (8 / 10) 2 (5 / 100)) = 1 / 2
   \<and> wavefunction (initialize QuantumWalkSimulator_init (6 / 10) (8 / 10) 2 (5 / 100))
       = \<lparr>alpha = Complex (6 / 10) 0, beta = Complex (8 / 10) 0\<rparr>
   \<and> (- 3::real) \<le> 0
   \<and> decoherence_rate (initialize QuantumWalkSimulator_init (6 / 10) (8 / 10) (- 3) (5 / 100)) = 0
   \<and> current_state (initialize QuantumWalkSimulator_init (6 / 10) (8 / 10) 2 (5 / 100)) = SUPERPOSITION"
  using initialize_spec [of "6 / 10" "8 / 10" 2 QuantumWalkSimulator_init "5 / 100"]
        initialize_spec [of "6 / 10" "8 / 10" "- 3" QuantumWalkSimulator_init "5 / 100"]
  by (simp add: Let_def ordinary_magnitude_def power_divide QuantumWavefunction.equality)

section \<open>Histories\<close>

lemma make_quantum_decision_history:
  "decision_history (snd (make_quantum_decision sim src now)) =
   decision_history sim @ [fst (make_quantum_decision sim src now)]"
  by (simp add: make_quantum_decision_def reset_to_superposition_def Let_def split_beta)

lemma make_quantum_decisions_history:
  "decision_history (snd (make_quantum_decisions sim es)) =
   decision_history sim @ fst (make_quantum_decisions sim es)"
proof (induction es arbitrary: sim)
  case Nil
  show ?case by simp
next
  case (Cons e es)
  show ?case
    using Cons.IH [of "snd (make_quantum_decision sim (fst e) (snd e))"]
    by (simp add: split_beta Let_def make_quantum_decision_history)
qed

lemma make_quantum_decisions_length:
  "length (fst (make_quantum_decisions sim es)) = length es"
  by (induction es arbitrary: sim) (simp_all add: split_beta Let_def)

lemma update_histories_bounded:
  "length (entropy_history sim) \<le> 1000 \<Longrightarrow> length (entropy_history (update_histories sim)) \<le> 1000"
  "length (coherence_history sim) \<le> 1000 \<Longrightarrow> length (coherence_history (update_histories sim)) \<le> 1000"
  by (simp_all add: update_histories_def Let_def)

lemma update_histories_evicts_oldest:
  assumes "length (entropy_history sim) = 1000" and "length (coherence_history sim) = 1000"
  shows "entropy_history (update_histories sim) = tl (entropy_history sim) @ [calculate_entropy sim]"
    and "coherence_history (update_histories sim) = tl (coherence_history sim) @ [calculate_coherence sim]"
proof -
  have "entropy_history sim \<noteq> []" "coherence_history sim \<noteq> []"
    using assms by auto
  then show "entropy_history (update_histories sim) = tl (entropy_history sim) @ [calculate_entropy sim]"
    and "coherence_history (update_histories sim) = tl (coherence_history sim) @ [calculate_coherence sim]"
    using assms by (simp_all add: update_histories_def Let_def)
qed

text \<open>
  Claim C5. The claim demands that \<open>decision_history\<close> never exceeds 1000 entries and
  that the oldest record is gone after 1001 decisions. After 1001 calls of
  \<open>make_quantum_decision\<close> on a freshly constructed simulator the history holds all
  1001 decisions the calls returned, in call order, the first one included.
  (\<open>entropy_history\<close> and \<open>coherence_history\<close> are bounded by 1000 and evict their
  oldest entry: the two lemmas above.)
\<close>

theorem decision_history_unbounded:
  "(let (ds, sim') = make_quantum_decisions QuantumWalkSimulator_init (replicate 1001 ((0, 0, 0), 0))
    in decision_history sim' = ds \<and> length (decision_history sim') = 1001)"
proof -
  have "decision_history QuantumWalkSimulator_init = []"
    by (simp add: QuantumWalkSimulator_init_def)
  then show ?thesis
    using make_quantum_decisions_history
            [of QuantumWalkSimulator_init "replicate 1001 ((0, 0, 0), 0)"]
          make_quantum_decisions_length
            [of QuantumWalkSimulator_init "replicate 1001 ((0, 0, 0), 0)"]
    by (simp add: split_beta)
qed

section \<open>Analyzer\<close>

text \<open>
  On a list of one decision the report is the empty dictionary: it has no
  \<open>result\<close> key and no other status entry. (The \<open>erf\<close> argument is not used on this
  path; \<^const>\<open>tanh\<close> stands in for it.)
\<close>

theorem analyze_one_decision_counterexample:
  "analyze_randomness_quality tanh
     [\<lparr>direction = ''LEFT'', probability = 1 / 2, amplitude_left = 1, amplitude_right = 0,
       entropy = 1, coherence = 1 / 2, timestamp = 0\<rparr>] = []
   \<and> map_of (analyze_randomness_quality tanh
        [\<lparr>direction = ''LEFT'', probability = 1 / 2, amplitude_left = 1, amplitude_right = 0,
          entropy = 1, coherence = 1 / 2, timestamp = 0\<rparr>]) ''result'' = None"
  by (simp add: analyze_randomness_quality_def)

text \<open>
  Claim C7, amended. \<open>analyze_randomness_quality\<close> called with fewer than 2 decisions
  never fails and returns the empty dictionary, a report with no keys and no status
  field; with 2 or more decisions it returns the five entries \<open>sequence_length\<close>,
  \<open>runs_test\<close>, \<open>frequency_test\<close>, \<open>autocorrelation\<close> and \<open>entropy_rate\<close>.
\<close>

theorem analyze_randomness_quality_insufficient:
  "(length decisions < 2 \<longrightarrow> analyze_randomness_quality erf decisions = [])
   \<and> (2 \<le> length decisions \<longrightarrow>
        map fst (analyze_randomness_quality erf decisions) =
          [''sequence_length'', ''runs_test'', ''frequency_test'', ''autocorrelation'', ''entropy_rate''])"
  by (simp add: analyze_randomness_quality_def Let_def)

theorem analyze_randomness_quality_insufficient_witness:
  "length [\<lparr>direction = ''RIGHT'', probability = 1 / 2, amplitude_left = 0, amplitude_right = 1,
            entropy = 1, coherence = 1 / 2, timestamp = 3\<rparr>] < 2
   \<and> analyze_randomness_quality tanh
        [\<lparr>direction = ''RIGHT'', probability = 1 / 2, amplitude_left = 0, amplitude_right = 1,
          entropy = 1, coherence = 1 / 2, timestamp = 3\<rparr>] = []
   \<and> analyze_randomness_quality tanh [] = []
   \<and> map fst (analyze_randomness_quality tanh
        [\<lparr>direction = ''RIGHT'', probability = 1 / 2, amplitude_left = 0, amplitude_right = 1,
          entropy = 1, coherence = 1 / 2, timestamp = 3\<rparr>,
         \<lparr>direction = ''LEFT'', probability = 1 / 2, amplitude_left = 1, amplitude_right = 0,
          entropy = 1, coherence = 1 / 2, timestamp = 4\<rparr>]) =
       [''sequence_length'', ''runs_test'', ''frequency_test'', ''autocorrelation'', ''entropy_rate'']"
  using analyze_randomness_quality_insufficient
          [of "[\<lparr>direction = ''RIGHT'', probability = 1 / 2, amplitude_left = 0, amplitude_right = 1,
            entropy = 1, coherence = 1 / 2, timestamp = 3\<rparr>]" tanh]
        analyze_randomness_quality_insufficient [of "[]" tanh]
        analyze_randomness_quality_insufficient
          [of "[\<lparr>direction = ''RIGHT'', probability = 1 / 2, amplitude_left = 0, amplitude_right = 1,
          entropy = 1, coherence = 1 / 2, timestamp = 3\<rparr>,
         \<lparr>direction = ''LEFT'', probability = 1 / 2, amplitude_left = 1, amplitude_right = 0,
          entropy = 1, coherence = 1 / 2, timestamp = 4\<rparr>]" tanh]
  by simp

subsection \<open>Runs test\<close>

lemma count_runs_single: "count_runs [x] = 1"
  by (simp add: count_runs_def)

lemma count_runs_snoc:
  assumes "xs \<noteq> []"
  shows "count_runs (xs @ [x]) = count_runs xs + (if x \<noteq> last xs then 1 else 0)"
proof -
  define n where "n = length xs"
  have n1: "1 \<le> n" using assms by (cases xs) (simp_all add: n_def)
  define f where "f = (\<lambda>(ys::int list) i (runs::nat). if ys ! i \<noteq> ys ! (i - 1) then runs + 1 else runs)"
  have up: "[1..<length (xs @ [x])] = [1..<n] @ [n]"
    using n1 by (simp add: n_def)
  have same: "fold (f (xs @ [x])) [1..<n] 1 = fold (f xs) [1..<n] 1"
  proof (rule fold_cong)
    fix i assume "i \<in> set [1..<n]"
    then have "i < length xs" "i - 1 < length xs" by (auto simp: n_def)
    then show "f (xs @ [x]) i = f xs i"
      by (simp add: f_def nth_append fun_eq_iff)
  qed simp_all
  have lastx: "(xs @ [x]) ! (n - 1) = last xs"
    using assms n1 by (simp add: n_def nth_append last_conv_nth)
  have "count_runs (xs @ [x]) = f (xs @ [x]) n (fold (f (xs @ [x])) [1..<n] 1)"
    unfolding count_runs_def up f_def by simp
  also have "\<dots> = f (xs @ [x]) n (count_runs xs)"
    unfolding same by (simp add: count_runs_def f_def n_def)
  also have "\<dots> = count_runs xs + (if x \<noteq> last xs then 1 else 0)"
    using lastx by (simp add: f_def n_def)
  finally show ?thesis .
qed

lemma count_runs_maximal:
  "sequence \<noteq> [] \<Longrightarrow> count_runs sequence = maximal_constant_runs sequence"
proof (induction sequence rule: rev_induct)
  case Nil
  then show ?case by simp
next
  case (snoc x xs)
  show ?case
  proof (cases "xs = []")
    case True
    then show ?thesis by (simp add: count_runs_single maximal_constant_runs_def)
  next
    case False
    then obtain ys y where xs: "xs = ys @ [y]"
      by (metis append_butlast_last_id)
    have "remdups_adj (xs @ [x]) = remdups_adj xs @ (if y = x then [] else [x])"
      unfolding xs using remdups_adj_append_two [of ys y x] by simp
    then have "maximal_constant_runs (xs @ [x]) =
               maximal_constant_runs xs + (if x \<noteq> last xs then 1 else 0)"
      by (simp add: maximal_constant_runs_def xs)
    then show ?thesis
      using snoc.IH [OF False] count_runs_snoc [OF False, of x] by simp
  qed
qed

lemma sum_list_binary:
  assumes "set xs \<subseteq> {0, 1::int}"
  shows "0 \<le> sum_list xs" and "sum_list xs \<le> int (length xs)"
    and "sum_list xs = 0 \<longleftrightarrow> (\<forall>x\<in>set xs. x = 0)"
    and "sum_list xs = int (length xs) \<longleftrightarrow> (\<forall>x\<in>set xs. x = 1)"
  using assms by (induction xs) auto

lemma binary_identical:
  assumes "set xs \<subseteq> {0, 1::int}"
  shows "(\<forall>x\<in>set xs. \<forall>y\<in>set xs. x = y) \<longleftrightarrow> (\<forall>x\<in>set xs. x = 0) \<or> (\<forall>x\<in>set xs. x = 1)"
proof
  assume h: "\<forall>x\<in>set xs. \<forall>y\<in>set xs. x = y"
  show "(\<forall>x\<in>set xs. x = 0) \<or> (\<forall>x\<in>set xs. x = 1)"
  proof (cases xs)
    case Nil
    then show ?thesis by simp
  next
    case (Cons a as)
    then have a: "a \<in> set xs" by simp
    then have "a = 0 \<or> a = 1" using assms by auto
    moreover have "\<forall>x\<in>set xs. x = a" using h a by blast
    ultimately show ?thesis by blast
  qed
next
  assume "(\<forall>x\<in>set xs. x = 0) \<or> (\<forall>x\<in>set xs. x = 1)"
  then show "\<forall>x\<in>set xs. \<forall>y\<in>set xs. x = y" by metis
qed

lemma runs_test_degenerate_iff:
  assumes "set sequence \<subseteq> {0, 1}" and "2 \<le> length sequence"
  shows "map_of (runs_test erf sequence) ''result'' = Some (PStr ''degenerate'')
         \<longleftrightarrow> (\<forall>x\<in>set sequence. \<forall>y\<in>set sequence. x = y)"
proof -
  have deg: "(sum_list sequence = 0 \<or> int (length sequence) - sum_list sequence = 0)
             \<longleftrightarrow> (\<forall>x\<in>set sequence. \<forall>y\<in>set sequence. x = y)"
    using sum_list_binary(3,4) [OF assms(1)] binary_identical [OF assms(1)] by auto
  show ?thesis
  proof (cases "sum_list sequence = 0 \<or> int (length sequence) - sum_list sequence = 0")
    case True
    then have "map_of (runs_test erf sequence) ''result'' = Some (PStr ''degenerate'')"
      using assms(2) by (simp add: runs_test_def Let_def)
    then show ?thesis using True deg by simp
  next
    case False
    then have "map_of (runs_test erf sequence) ''result'' \<noteq> Some (PStr ''degenerate'')"
      using assms(2) by (simp add: runs_test_def Let_def)
    then show ?thesis using False deg by simp
  qed
qed

lemma runs_test_report:
  assumes "2 \<le> length sequence"
    and "sum_list sequence \<noteq> 0" and "int (length sequence) - sum_list sequence \<noteq> 0"
  shows "map_of (runs_test erf sequence) ''runs_observed'' = Some (PNum (real (count_runs sequence)))"
    and "map_of (runs_test erf sequence) ''runs_expected'' =
           Some (PNum (real_of_int (2 * sum_list sequence * (int (length sequence) - sum_list sequence))
                       / real (length sequence) + 1))"
    and "map_of (runs_test erf sequence) ''result'' = Some (PStr ''random'')
         \<or> map_of (runs_test erf sequence) ''result'' = Some (PStr ''non_random'')"
  using assms by (simp_all add: runs_test_def Let_def)

lemma alternating_facts:
  "length (concat (replicate 10 [1, 0::int])) = 20"
  "sum_list (concat (replicate 10 [1, 0::int])) = 10"
  "count_runs (concat (replicate 10 [1, 0::int])) = 20"
  by code_simp+


text \<open>
  Claim C8. The loop of the runs test counts the maximal constant runs of a non-empty
  sequence. On a binary sequence of length at least 2, as \<open>analyze_randomness_quality\<close>
  passes it, the result is \<open>degenerate\<close> exactly when all values are identical, and
  otherwise the report holds the number of runs as \<open>runs_observed\<close> and
  \<open>2 * ones * zeros / n + 1\<close> as \<open>runs_expected\<close>. On \<open>[1, 0] * 10\<close> it reports
  \<open>runs_observed = 20\<close> and is not \<open>degenerate\<close>; on \<open>[1] * 20\<close> it is \<open>degenerate\<close>.
  This holds for every function used as \<open>math.erf\<close>.
\<close>

theorem runs_test_spec:
  "(sequence \<noteq> [] \<longrightarrow> count_runs sequence = maximal_constant_runs sequence)
   \<and> (set sequence \<subseteq> {0, 1} \<and> 2 \<le> length sequence \<longrightarrow>
        (map_of (runs_test erf sequence) ''result'' = Some (PStr ''degenerate'')
           \<longleftrightarrow> (\<forall>x\<in>set sequence. \<forall>y\<in>set sequence. x = y))
        \<and> (\<not> (\<forall>x\<in>set sequence. \<forall>y\<in>set sequence. x = y) \<longrightarrow>
             (let n = length sequence; ones = sum_list sequence; zeros = int n - ones
              in map_of (runs_test erf sequence) ''runs_observed'' =
                   Some (PNum (real (count_runs sequence)))
               \<and> map_of (runs_test erf sequence) ''runs_expected'' =
                   Some (PNum (real_of_int (2 * ones * zeros) / real n + 1)))))
   \<and> (2 \<le> length decisions \<longrightarrow>
        map_of (analyze_randomness_quality erf decisions) ''runs_test'' =
          Some (PDict (runs_test erf (map (\<lambda>d. if direction d = ''LEFT'' then 1 else 0) decisions))))
   \<and> map_of (runs_test erf (concat (replicate 10 [1, 0]))) ''runs_observed'' = Some (PNum 20)
   \<and> map_of (runs_test erf (concat (replicate 10 [1, 0]))) ''result'' \<noteq> Some (PStr ''degenerate'')
   \<and> map_of (runs_test erf (replicate 20 1)) ''result'' = Some (PStr ''degenerate'')"
proof -
  have p1: "sequence \<noteq> [] \<longrightarrow> count_runs sequence = maximal_constant_runs sequence"
    by (simp add: count_runs_maximal)
  have p2: "set sequence \<subseteq> {0, 1} \<and> 2 \<le> length sequence \<longrightarrow>
        (map_of (runs_test erf sequence) ''result'' = Some (PStr ''degenerate'')
           \<longleftrightarrow> (\<forall>x\<in>set sequence. \<forall>y\<in>set sequence. x = y))
        \<and> (\<not> (\<forall>x\<in>set sequence. \<forall>y\<in>set sequence. x = y) \<longrightarrow>
             (let n = length sequence; ones = sum_list sequence; zeros = int n - ones
              in map_of (runs_test erf sequence) ''runs_observed'' =
                   Some (PNum (real (count_runs sequence)))
               \<and> map_of (runs_test erf sequence) ''runs_expected'' =
                   Some (PNum (real_of_int (2 * ones * zeros) / real n + 1))))"
  proof (intro impI conjI)
    assume a: "set sequence \<subseteq> {0, 1} \<and> 2 \<le> length sequence"
    then show "map_of (runs_test erf sequence) ''result'' = Some (PStr ''degenerate'')
           \<longleftrightarrow> (\<forall>x\<in>set sequence. \<forall>y\<in>set sequence. x = y)"
      by (simp add: runs_test_degenerate_iff)
    assume n: "\<not> (\<forall>x\<in>set sequence. \<forall>y\<in>set sequence. x = y)"
    have b: "set sequence \<subseteq> {0, 1}" and l: "2 \<le> length sequence" using a by simp_all
    have n0: "\<not> (\<forall>x\<in>set sequence. x = 0)" and n1: "\<not> (\<forall>x\<in>set sequence. x = 1)"
      using n binary_identical [OF b] by simp_all
    have nz1: "sum_list sequence \<noteq> 0"
      using n0 sum_list_binary(3) [OF b] by simp
    have "sum_list sequence \<noteq> int (length sequence)"
      using n1 sum_list_binary(4) [OF b] by simp
    then have nz2: "int (length sequence) - sum_list sequence \<noteq> 0" by simp
    note nz = nz1 nz2
    show "let n = length sequence; ones = sum_list sequence; zeros = int n - ones
              in map_of (runs_test erf sequence) ''runs_observed'' =
                   Some (PNum (real (count_runs sequence)))
               \<and> map_of (runs_test erf sequence) ''runs_expected'' =
                   Some (PNum (real_of_int (2 * ones * zeros) / real n + 1))"
      using runs_test_report(1,2) [OF l nz, of erf] by (simp add: Let_def)
  qed
  have p3: "2 \<le> length decisions \<longrightarrow>
        map_of (analyze_randomness_quality erf decisions) ''runs_test'' =
          Some (PDict (runs_test erf (map (\<lambda>d. if direction d = ''LEFT'' then 1 else 0) decisions)))"
    by (simp add: analyze_randomness_quality_def Let_def)
  have p4: "map_of (runs_test erf (concat (replicate 10 [1, 0]))) ''runs_observed'' = Some (PNum 20)"
    and p5: "map_of (runs_test erf (concat (replicate 10 [1, 0]))) ''result'' \<noteq> Some (PStr ''degenerate'')"
    by (simp_all add: runs_test_def Let_def alternating_facts)
  have p6: "map_of (runs_test erf (replicate 20 1)) ''result'' = Some (PStr ''degenerate'')"
    by (simp add: runs_test_def Let_def sum_list_replicate)
  show ?thesis using p1 p2 p3 p4 p5 p6 by blast
qed

theorem runs_test_spec_witness:
  "[1, 1, 0, 1] \<noteq> [] \<and> count_runs [1, 1, 0, 1] = 3 \<and> maximal_constant_runs [1, 1, 0, 1] = 3
   \<and> set [1, 1, 0, 1] \<subseteq> {0, 1::int} \<and> 2 \<le> length [1, 1, 0, 1::int]
   \<and> \<not> (\<forall>x\<in>set [1, 1, 0, 1::int]. \<forall>y\<in>set [1, 1, 0, 1::int]. x = y)
   \<and> map_of (runs_test tanh [1, 1, 0, 1]) ''runs_observed'' = Some (PNum 3)
   \<and> map_of (runs_test tanh [1, 1, 0, 1]) ''runs_expected'' = Some (PNum (5 / 2))
   \<and> map_of (runs_test tanh [0, 0]) ''result'' = Some (PStr ''degenerate'')"
  using runs_test_spec [of "[1, 1, 0, 1]" tanh "[]"] runs_test_spec [of "[0, 0]" tanh "[]"]
  by (simp add: maximal_constant_runs_def Let_def)

end
